theory Spec2Isabelle
  imports Main "HOL-Library.AList"
begin

section \<open>Data model\<close>

text \<open>
  The dataclasses of \<^verbatim>\<open>medical2_portfolio.py\<close>. A row of table \<^verbatim>\<open>clients\<close> and the
  \<^verbatim>\<open>Client\<close> object that \<^verbatim>\<open>_row_to_client\<close> builds from it carry the same fifteen
  fields, so one record stands for both. Column \<^verbatim>\<open>id\<close> is called \<open>client_id\<close> (the name
  the methods use for it); ids are natural numbers, as the routes' converter
  \<^verbatim>\<open><int:client_id>\<close> delivers them. The text columns hold strings: every method writes
  them from parameters annotated \<^verbatim>\<open>str\<close>. Column \<^verbatim>\<open>reply_date\<close> has no default and is
  NULL until a reply is recorded; \<^verbatim>\<open>_row_to_client\<close> reads NULL as the empty string and
  no statement of the program tells the two apart, so NULL is the empty string here.
  Column \<^verbatim>\<open>admin_notes\<close> is different: it starts as the empty string, but the SQL of
  the methods that write it tells NULL from a string (\<^verbatim>\<open>NULL || x\<close> is NULL, and
  \<^verbatim>\<open>NULL = ''\<close> is not true), and the read route can store NULL in it, so the column is
  an optional string, \<open>None\<close> for NULL. The two BOOLEAN columns are only ever written
  with the literals 0 and 1.
\<close>

record Client =
  client_id :: nat
  name :: string
  email :: string
  phone :: string
  address :: string
  project_type :: string
  message :: string
  status :: string
  created_at :: string
  read_by_admin :: bool
  admin_notes :: "string option"
  replied_by_admin :: bool
  reply_date :: string
  reply_content :: string
  reply_admin :: string

record WebsiteContent =
  section_name :: string
  content :: string
  updated_at :: string

record AdminUser =
  admin_id :: nat
  username :: string
  password_hash :: string
  admin_created_at :: string

text \<open>
  The SQLite file: the three tables the operations below use, and the AUTOINCREMENT
  counter of table \<^verbatim>\<open>clients\<close> (the largest id ever handed out). A new row gets an id
  one larger than the counter and than every id in the table.
\<close>

record database =
  clients :: "Client list"
  clients_seq :: nat
  website_content :: "WebsiteContent list"
  admin_users :: "AdminUser list"

subsection \<open>Clock readings and their renderings\<close>

text \<open>
  \<^verbatim>\<open>datetime.now()\<close> is an input of the operations that record a time. The two renderings
  the program uses follow the Python library: \<^verbatim>\<open>isoformat()\<close> prints
  \<^verbatim>\<open>YYYY-MM-DDTHH:MM:SS\<close>, followed by \<^verbatim>\<open>.ffffff\<close> when the microseconds are not zero, and
  \<^verbatim>\<open>strftime('%Y-%m-%d %H:%M')\<close> prints the date and the time to the minute. SQLite's
  \<^verbatim>\<open>CURRENT_TIMESTAMP\<close> prints \<^verbatim>\<open>YYYY-MM-DD HH:MM:SS\<close>.
\<close>

record datetime =
  year :: nat
  month :: nat
  day :: nat
  hour :: nat
  minute :: nat
  second :: nat
  microsecond :: nat

fun digits :: "nat \<Rightarrow> nat \<Rightarrow> string" where
  "digits 0 n = []"
| "digits (Suc w) n = digits w (n div 10) @ [char_of (48 + n mod 10)]"

definition isoformat :: "datetime \<Rightarrow> string" where
  "isoformat t =
     digits 4 (year t) @ ''-'' @ digits 2 (month t) @ ''-'' @ digits 2 (day t) @ ''T'' @
     digits 2 (hour t) @ '':'' @ digits 2 (minute t) @ '':'' @ digits 2 (second t) @
     (if microsecond t = 0 then [] else ''.'' @ digits 6 (microsecond t))"

definition strftime_minute :: "datetime \<Rightarrow> string" where
  "strftime_minute t =
     digits 4 (year t) @ ''-'' @ digits 2 (month t) @ ''-'' @ digits 2 (day t) @ '' '' @
     digits 2 (hour t) @ '':'' @ digits 2 (minute t)"

definition current_timestamp :: "datetime \<Rightarrow> string" where
  "current_timestamp t = strftime_minute t @ '':'' @ digits 2 (second t)"

section \<open>DatabaseManager\<close>

subsection \<open>SQL statements on a table\<close>

text \<open>
  \<^verbatim>\<open>UPDATE t SET ... WHERE P\<close> rewrites every row that satisfies \<open>P\<close> and reports how many
  there were (\<^verbatim>\<open>cursor.rowcount\<close>); \<^verbatim>\<open>DELETE FROM t WHERE P\<close> removes them and reports
  the same count.
\<close>

definition sql_update :: "('r \<Rightarrow> bool) \<Rightarrow> ('r \<Rightarrow> 'r) \<Rightarrow> 'r list \<Rightarrow> 'r list \<times> nat" where
  "sql_update P f rows = (map (\<lambda>r. if P r then f r else r) rows, length (filter P rows))"

definition sql_delete :: "('r \<Rightarrow> bool) \<Rightarrow> 'r list \<Rightarrow> 'r list \<times> nat" where
  "sql_delete P rows = (filter (\<lambda>r. \<not> P r) rows, length (filter P rows))"

definition newline :: string where
  "newline = [CHR 0x0A]"

definition quote :: string where
  "quote = [CHR 0x27]"

fun join :: "string \<Rightarrow> string list \<Rightarrow> string" where
  "join sep [] = []"
| "join sep [x] = x"
| "join sep (x # y # ys) = x @ sep @ join sep (y # ys)"

subsection \<open>Client operations\<close>

text \<open>
  Every method opens its own connection, so a method is a function from the database
  before the call to its return value and the database after it. A method that returns
  before \<^verbatim>\<open>commit\<close> has, in each case below, changed no row. Failures of the SQLite
  engine itself (a locked or unreadable file) are outside the model.

  \<^verbatim>\<open>create_client\<close>: the request fields are a dictionary from field names to strings.
  Reading \<^verbatim>\<open>client_data['name']\<close> for an absent key raises \<^verbatim>\<open>KeyError\<close>, which the
  method catches and returns as its message. The INSERT names six columns; the others
  take the defaults of the schema.
\<close>

definition next_client_id :: "database \<Rightarrow> nat" where
  "next_client_id db = Suc (fold max (map client_id (clients db)) (clients_seq db))"

definition key_error :: "string \<Rightarrow> string" where
  "key_error k = quote @ k @ quote"

definition get_default :: "(string \<rightharpoonup> string) \<Rightarrow> string \<Rightarrow> string \<Rightarrow> string" where
  "get_default d k dflt = (case d k of None \<Rightarrow> dflt | Some v \<Rightarrow> v)"

definition create_client ::
  "database \<Rightarrow> (string \<rightharpoonup> string) \<Rightarrow> datetime \<Rightarrow> (bool \<times> string \<times> Client option) \<times> database" where
  "create_client db client_data utc =
     (case client_data ''name'' of
        None \<Rightarrow> ((False, key_error ''name'', None), db)
      | Some n \<Rightarrow>
     (case client_data ''email'' of
        None \<Rightarrow> ((False, key_error ''email'', None), db)
      | Some e \<Rightarrow>
     (case client_data ''message'' of
        None \<Rightarrow> ((False, key_error ''message'', None), db)
      | Some m \<Rightarrow>
          let row = \<lparr> client_id = next_client_id db, name = n, email = e,
                      phone = get_default client_data ''phone'' [],
                      address = get_default client_data ''address'' [],
                      project_type = get_default client_data ''project_type'' [],
                      message = m, status = ''new'',
                      created_at = current_timestamp utc,
                      read_by_admin = False, admin_notes = Some [],
                      replied_by_admin = False, reply_date = [],
                      reply_content = [], reply_admin = [] \<rparr>
          in ((True, ''Client created successfully'', Some row),
              db\<lparr>clients := clients db @ [row], clients_seq := next_client_id db\<rparr>))))"


definition valid_statuses :: "string list" where
  "valid_statuses = [''new'', ''contacted'', ''in_progress'', ''completed'', ''archived'']"

definition status_note :: "datetime \<Rightarrow> string \<Rightarrow> string \<Rightarrow> string" where
  "status_note now st admin_name =
     newline @ newline @ ''['' @ strftime_minute now @ ''] Status changed to '' @
     quote @ st @ quote @ '' by '' @ admin_name"

text \<open>
  \<^verbatim>\<open>update_client_status\<close>. The status is checked before the \<^verbatim>\<open>try\<close> block. Inside it,
  binding an id of \<^verbatim>\<open>2**63\<close> or more to the first UPDATE raises \<^verbatim>\<open>OverflowError\<close> in the
  \<^verbatim>\<open>sqlite3\<close> module, which the method catches and returns as its message; nothing has
  been written then. The second UPDATE appends with \<^verbatim>\<open>admin_notes || ?\<close>, which leaves
  NULL notes NULL. (The other methods that bind an id are modelled for ids below
  \<^verbatim>\<open>2**63\<close>; for a larger id, which no row can have, they fail as well, with the text
  of the binding error in place of \<^verbatim>\<open>Client not found\<close>.)
\<close>

definition overflow_error :: string where
  "overflow_error = ''Python int too large to convert to SQLite INTEGER''"

definition update_client_status ::
  "database \<Rightarrow> nat \<Rightarrow> string \<Rightarrow> string \<Rightarrow> datetime \<Rightarrow> (bool \<times> string) \<times> database" where
  "update_client_status db cid st admin_name now =
     (if st \<notin> set valid_statuses
      then ((False, ''Invalid status. Must be one of: '' @ join '', '' valid_statuses), db)
      else if 2 ^ 63 \<le> cid then ((False, overflow_error), db)
      else
        let (rows1, rowcount) =
              sql_update (\<lambda>r. client_id r = cid)
                (\<lambda>r. r\<lparr>status := st, read_by_admin := True\<rparr>) (clients db)
        in if rowcount = 0 then ((False, ''Client not found''), db)
           else
             let rows2 =
                   (if admin_name \<noteq> []
                    then fst (sql_update (\<lambda>r. client_id r = cid)
                           (\<lambda>r. r\<lparr>admin_notes :=
                                    map_option (\<lambda>n. n @ status_note now st admin_name)
                                      (admin_notes r)\<rparr>)
                           rows1)
                    else rows1)
             in ((True, ''Status updated successfully''), db\<lparr>clients := rows2\<rparr>))"

text \<open>
  \<^verbatim>\<open>mark_client_as_read\<close>. The route passes the \<^verbatim>\<open>admin_notes\<close> entry of the request body
  as it is, so the note is a string or, for a JSON \<^verbatim>\<open>null\<close>, Python's \<^verbatim>\<open>None\<close>, which is
  bound as NULL. The CASE expression replaces notes that equal the empty string by the
  note and appends to all others; for NULL notes the comparison is not true and the
  appending gives NULL.
\<close>

definition mark_client_as_read ::
  "database \<Rightarrow> nat \<Rightarrow> string option \<Rightarrow> string \<Rightarrow> (bool \<times> string) \<times> database" where
  "mark_client_as_read db cid notes admin_name =
     (let appended =
            (case notes of
               None \<Rightarrow> []
             | Some n \<Rightarrow> if n \<noteq> [] then newline @ newline @ n else []);
          (rows1, rowcount) =
            sql_update (\<lambda>r. client_id r = cid)
              (\<lambda>r. r\<lparr>read_by_admin := True,
                      admin_notes :=
                        (case admin_notes r of
                           None \<Rightarrow> None
                         | Some old \<Rightarrow> if old = [] then notes else Some (old @ appended))\<rparr>)
              (clients db)
      in if rowcount = 0 then ((False, ''Client not found''), db)
         else ((True, ''Client marked as read''), db\<lparr>clients := rows1\<rparr>))"

definition mark_client_as_replied ::
  "database \<Rightarrow> nat \<Rightarrow> string \<Rightarrow> string \<Rightarrow> datetime \<Rightarrow> (bool \<times> string) \<times> database" where
  "mark_client_as_replied db cid reply admin_name now =
     (let (rows1, rowcount) =
            sql_update (\<lambda>r. client_id r = cid)
              (\<lambda>r. r\<lparr>replied_by_admin := True, reply_date := isoformat now,
                      reply_content := reply, reply_admin := admin_name,
                      read_by_admin := True\<rparr>)
              (clients db)
      in if rowcount = 0 then ((False, ''Client not found''), db)
         else ((True, ''Client marked as replied''), db\<lparr>clients := rows1\<rparr>))"

text \<open>
  \<^verbatim>\<open>mark_all_as_read\<close> reads the clock twice, once for the text that replaces empty notes
  and once for the text appended to the others. The message names the number of rows
  updated, printed in decimal.
\<close>

fun decimal :: "nat \<Rightarrow> nat \<Rightarrow> string" where
  "decimal 0 n = []"
| "decimal (Suc fuel) n =
     (if n < 10 then [char_of (48 + n)] else decimal fuel (n div 10) @ [char_of (48 + n mod 10)])"

definition str_nat :: "nat \<Rightarrow> string" where
  "str_nat n = decimal (Suc n) n"

definition mark_all_as_read ::
  "database \<Rightarrow> string \<Rightarrow> datetime \<Rightarrow> datetime \<Rightarrow> (bool \<times> string) \<times> database" where
  "mark_all_as_read db admin_name now1 now2 =
     (let first_note =
            (if admin_name \<noteq> []
             then ''['' @ strftime_minute now1 @ ''] Marked as read by '' @ admin_name
             else ''Marked as read'');
          next_note =
            (if admin_name \<noteq> []
             then newline @ newline @ ''['' @ strftime_minute now2 @ ''] Marked as read by '' @
                  admin_name
             else newline @ newline @ ''Marked as read'');
          (rows1, updated_count) =
            sql_update (\<lambda>r. \<not> read_by_admin r)
              (\<lambda>r. r\<lparr>read_by_admin := True,
                      admin_notes :=
                        (case admin_notes r of
                           None \<Rightarrow> None
                         | Some old \<Rightarrow> if old = [] then Some first_note
                                       else Some (old @ next_note))\<rparr>)
              (clients db)
      in ((True, ''Marked '' @ str_nat updated_count @ '' messages as read''),
          db\<lparr>clients := rows1\<rparr>))"

definition delete_client :: "database \<Rightarrow> nat \<Rightarrow> (bool \<times> string) \<times> database" where
  "delete_client db cid =
     (let (rows1, rowcount) = sql_delete (\<lambda>r. client_id r = cid) (clients db)
      in if rowcount = 0 then ((False, ''Client not found''), db)
         else ((True, ''Client deleted successfully''), db\<lparr>clients := rows1\<rparr>))"

text \<open>
  \<^verbatim>\<open>get_message_counts\<close> builds a dictionary: five counts under fixed keys, then one
  entry per status value present in the table (\<^verbatim>\<open>GROUP BY status\<close>), written over the
  dictionary by \<^verbatim>\<open>counts.update\<close>.
\<close>

definition get_message_counts :: "database \<Rightarrow> (string \<rightharpoonup> nat)" where
  "get_message_counts db =
     (let rows = clients db;
          counts =
            [''total'' \<mapsto> length rows,
             ''unread'' \<mapsto> length (filter (\<lambda>r. \<not> read_by_admin r) rows),
             ''read'' \<mapsto> length (filter (\<lambda>r. read_by_admin r) rows),
             ''replied'' \<mapsto> length (filter (\<lambda>r. replied_by_admin r) rows),
             ''read_not_replied'' \<mapsto>
               length (filter (\<lambda>r. read_by_admin r \<and> \<not> replied_by_admin r) rows)];
          status_counts =
            map_of (map (\<lambda>s. (s, length (filter (\<lambda>r. status r = s) rows)))
                      (remdups (map status rows)))
      in counts ++ status_counts)"

subsection \<open>Website content operations\<close>

text \<open>
  \<^verbatim>\<open>INSERT OR REPLACE\<close> on the unique column \<^verbatim>\<open>section\<close> removes the row of that section,
  if there is one, and inserts the new row. \<^verbatim>\<open>get_website_content\<close> fills a dictionary
  row by row.
\<close>

definition insert_or_replace ::
  "datetime \<Rightarrow> WebsiteContent list \<Rightarrow> string \<times> string \<Rightarrow> WebsiteContent list" where
  "insert_or_replace utc rows sc =
     filter (\<lambda>r. section_name r \<noteq> fst sc) rows @
     [\<lparr>section_name = fst sc, content = snd sc, updated_at = current_timestamp utc\<rparr>]"

definition save_website_content ::
  "database \<Rightarrow> (string \<times> string) list \<Rightarrow> datetime \<Rightarrow> (bool \<times> string) \<times> database" where
  "save_website_content db content_data utc =
     ((True, ''Content saved successfully''),
      db\<lparr>website_content := foldl (insert_or_replace utc) (website_content db) content_data\<rparr>)"

definition get_website_content :: "database \<Rightarrow> (string \<rightharpoonup> WebsiteContent)" where
  "get_website_content db =
     foldl (\<lambda>m r. m(section_name r \<mapsto> r)) Map.empty (website_content db)"

subsection \<open>Admin user operations\<close>

text \<open>
  \<^verbatim>\<open>check_password_hash\<close> and \<^verbatim>\<open>generate_password_hash\<close> belong to werkzeug; they are
  parameters. \<^verbatim>\<open>fetchone\<close> returns the first row of the result, or nothing.
\<close>

definition authenticate_admin ::
  "(string \<Rightarrow> string \<Rightarrow> bool) \<Rightarrow> database \<Rightarrow> string \<Rightarrow> string \<Rightarrow>
   bool \<times> string \<times> AdminUser option" where
  "authenticate_admin check_password_hash db uname password =
     (case find (\<lambda>r. username r = uname) (admin_users db) of
        None \<Rightarrow> (False, ''Invalid credentials'', None)
      | Some row \<Rightarrow>
          if \<not> check_password_hash (password_hash row) password
          then (False, ''Invalid credentials'', None)
          else (True, ''Authentication successful'', Some row))"

subsection \<open>A fresh store\<close>

text \<open>
  \<^verbatim>\<open>init_database\<close> on a file that does not exist yet: the tables are created empty, the
  account \<^verbatim>\<open>admin\<close> is seeded, and each section of the default site content is
  inserted unless the table already has it. The texts of the default content are a
  parameter. Table \<^verbatim>\<open>email_templates\<close> is left out: no operation modelled here reads
  or writes it.
\<close>

definition init_database ::
  "(string \<Rightarrow> string) \<Rightarrow> (string \<times> string) list \<Rightarrow> datetime \<Rightarrow> database" where
  "init_database generate_password_hash default_content utc =
     \<lparr> clients = [], clients_seq = 0,
       website_content =
         foldl (\<lambda>rows sc.
                  if \<exists>r\<in>set rows. section_name r = fst sc then rows
                  else rows @ [\<lparr>section_name = fst sc, content = snd sc,
                                 updated_at = current_timestamp utc\<rparr>])
           [] default_content,
       admin_users =
         [\<lparr>admin_id = 1, username = ''admin'',
           password_hash = generate_password_hash ''admin9048'',
           admin_created_at = current_timestamp utc\<rparr>] \<rparr>"

subsection \<open>Sequences of operations\<close>

text \<open>
  The six operations on submissions, each with its arguments and the clock readings it
  takes, and the database after a sequence of them.
\<close>

datatype operation =
    Create "string \<rightharpoonup> string" datetime
  | SetStatus nat string string datetime
  | MarkRead nat "string option" string
  | MarkAllRead string datetime datetime
  | Reply nat string string datetime
  | Delete nat

fun step :: "database \<Rightarrow> operation \<Rightarrow> database" where
  "step db (Create client_data utc) = snd (create_client db client_data utc)"
| "step db (SetStatus cid st admin_name now) = snd (update_client_status db cid st admin_name now)"
| "step db (MarkRead cid notes admin_name) = snd (mark_client_as_read db cid notes admin_name)"
| "step db (MarkAllRead admin_name now1 now2) = snd (mark_all_as_read db admin_name now1 now2)"
| "step db (Reply cid reply admin_name now) = snd (mark_client_as_replied db cid reply admin_name now)"
| "step db (Delete cid) = snd (delete_client db cid)"

definition run :: "database \<Rightarrow> operation list \<Rightarrow> database" where
  "run db ops = foldl step db ops"


section \<open>EmailManager\<close>





section \<open>Routes\<close>

text \<open>
  A route takes the database, the bearer token of the request (if the header carries
  one), the JSON body as a dictionary of strings, and returns the response (body and
  status code) and the database after the request. \<^verbatim>\<open>AuthManager.verify_token\<close> wraps
  the JWT library and the signing secret; it is a parameter that maps a token to the
  identity it carries or to the reason it is refused. The identity is what
  \<^verbatim>\<open>AdminUser.to_dict\<close> puts in the token at login.
\<close>

record admin_data =
  data_id :: nat
  data_username :: string
  data_created_at :: string


datatype body =
    Error string
  | Message string
  | ClientCreated string Client
  | ReplySaved string bool
  | LoginOk string admin_data string

type_synonym response = "body \<times> nat"

definition authorize :: "string option \<Rightarrow> (string \<Rightarrow> string + admin_data) \<Rightarrow> response + admin_data" where
  "authorize token verify_token =
     (case token of
        None \<Rightarrow> Inl (Error ''Authentication required'', 401)
      | Some t \<Rightarrow>
          if t = [] then Inl (Error ''Authentication required'', 401)
          else (case verify_token t of
                  Inl reason \<Rightarrow> Inl (Error reason, 401)
                | Inr admin \<Rightarrow> Inr admin))"






section \<open>Site content routes\<close>

subsection \<open>JSON values\<close>

text \<open>
  The values of request and response bodies. Numbers are integers here; numbers with a
  fraction or an exponent are outside the model.
\<close>

datatype json =
    JNull
  | JBool bool
  | JInt int
  | JString string
  | JArray "json list"
  | JObject "(string \<times> json) list"

definition is_container :: "json \<Rightarrow> bool" where
  "is_container v = (case v of JArray _ \<Rightarrow> True | JObject _ \<Rightarrow> True | _ \<Rightarrow> False)"

definition str_int :: "int \<Rightarrow> string" where
  "str_int i = (if i < 0 then ''-'' @ str_nat (nat (- i)) else str_nat (nat i))"

text \<open>Python's \<^verbatim>\<open>str\<close> on a value that is neither a dictionary nor a list.\<close>

definition py_str :: "json \<Rightarrow> string" where
  "py_str v =
     (case v of
        JString s \<Rightarrow> s
      | JInt i \<Rightarrow> str_int i
      | JBool b \<Rightarrow> (if b then ''True'' else ''False'')
      | JNull \<Rightarrow> ''None''
      | _ \<Rightarrow> [])"

subsection \<open>The routes\<close>

text \<open>
  \<^verbatim>\<open>json.dumps\<close> and \<^verbatim>\<open>json.loads\<close> belong to the Python library; the routes take them as
  parameters, the decoder returning nothing where \<^verbatim>\<open>json.loads\<close> raises.

  \<^verbatim>\<open>POST /api/admin/content\<close>: the body must be a JSON object. Its entries are copied
  into the dictionary \<^verbatim>\<open>content_to_save\<close>, dictionaries and lists serialised, every other
  value turned into a string by \<^verbatim>\<open>str\<close>, and the dictionary is saved entry by entry.
\<close>

definition save_content ::
  "database \<Rightarrow> string option \<Rightarrow> (string \<Rightarrow> string + admin_data) \<Rightarrow> (json \<Rightarrow> string) \<Rightarrow>
   json \<Rightarrow> datetime \<Rightarrow> response \<times> database" where
  "save_content db token verify_token dumps data utc =
     (case authorize token verify_token of
        Inl refused \<Rightarrow> (refused, db)
      | Inr admin \<Rightarrow>
          (case data of
             JObject items \<Rightarrow>
               let content_to_save =
                     foldl (\<lambda>acc item.
                              AList.update (fst item)
                                (if is_container (snd item) then dumps (snd item)
                                 else py_str (snd item)) acc)
                       [] items
               in (case save_website_content db content_to_save utc of
                     ((success, msg), db') \<Rightarrow>
                       if \<not> success then ((Error msg, 400), db')
                       else ((Message msg, 200), db'))
           | _ \<Rightarrow> ((Error ''Content must be a JSON object'', 400), db)))"

text \<open>
  \<^verbatim>\<open>GET /api/content\<close> answers with a dictionary from section names to values: the
  stored text decoded where the decoder accepts it, the stored text itself otherwise.
\<close>

definition get_content :: "(string \<Rightarrow> json option) \<Rightarrow> database \<Rightarrow> (string \<rightharpoonup> json)" where
  "get_content loads db =
     (\<lambda>section.
        case get_website_content db section of
          None \<Rightarrow> None
        | Some content_obj \<Rightarrow>
            Some (case loads (content content_obj) of
                    Some v \<Rightarrow> v
                  | None \<Rightarrow> JString (content content_obj)))"

subsection \<open>The JSON library on ASCII texts\<close>

text \<open>
  A model of \<^verbatim>\<open>json.dumps\<close> and \<^verbatim>\<open>json.loads\<close> with their default arguments, for
  evaluating the routes on concrete requests. It covers ASCII texts whose numbers are
  integers: on these the decoder returns the value the library returns, and nothing
  where the library raises \<^verbatim>\<open>JSONDecodeError\<close>. Texts with fractions, exponents,
  \<^verbatim>\<open>NaN\<close>, \<^verbatim>\<open>Infinity\<close> or escapes of characters beyond ASCII are outside the model,
  which has no value to return for them.

  The encoder writes \<^verbatim>\<open>", "\<close> between items and \<^verbatim>\<open>": "\<close> after a key, and escapes the
  quote, the backslash and every character outside the range from space to tilde.
\<close>

definition hex_digit :: "nat \<Rightarrow> char" where
  "hex_digit n = (if n < 10 then char_of (48 + n) else char_of (87 + n))"

definition escape_char :: "char \<Rightarrow> string" where
  "escape_char c =
     (if c = CHR 0x22 then [CHR 0x5C, CHR 0x22]
      else if c = CHR 0x5C then [CHR 0x5C, CHR 0x5C]
      else if c = CHR 0x0A then [CHR 0x5C, CHR ''n'']
      else if c = CHR 0x0D then [CHR 0x5C, CHR ''r'']
      else if c = CHR 0x09 then [CHR 0x5C, CHR ''t'']
      else if c = CHR 0x08 then [CHR 0x5C, CHR ''b'']
      else if c = CHR 0x0C then [CHR 0x5C, CHR ''f'']
      else if (32::nat) \<le> of_char c \<and> of_char c \<le> (126::nat) then [c]
      else [CHR 0x5C, CHR ''u'', CHR ''0'', CHR ''0'',
            hex_digit (of_char c div 16), hex_digit (of_char c mod 16)])"

definition encode_string :: "string \<Rightarrow> string" where
  "encode_string s = [CHR 0x22] @ concat (map escape_char s) @ [CHR 0x22]"

fun json_dumps :: "json \<Rightarrow> string" where
  "json_dumps JNull = ''null''"
| "json_dumps (JBool b) = (if b then ''true'' else ''false'')"
| "json_dumps (JInt i) = str_int i"
| "json_dumps (JString s) = encode_string s"
| "json_dumps (JArray vs) = ''['' @ join '', '' (map json_dumps vs) @ '']''"
| "json_dumps (JObject kvs) =
     ''{'' @ join '', '' (map (\<lambda>kv. encode_string (fst kv) @ '': '' @ json_dumps (snd kv)) kvs) @
     ''}''"

definition is_ws :: "char \<Rightarrow> bool" where
  "is_ws c = (c = CHR '' '' \<or> c = CHR 0x09 \<or> c = CHR 0x0A \<or> c = CHR 0x0D)"

definition skip_ws :: "string \<Rightarrow> string" where
  "skip_ws s = dropWhile is_ws s"

definition is_digit :: "char \<Rightarrow> bool" where
  "is_digit c = ((48::nat) \<le> of_char c \<and> of_char c \<le> (57::nat))"

definition digits_value :: "string \<Rightarrow> nat" where
  "digits_value ds = foldl (\<lambda>a c. 10 * a + (of_char c - 48)) 0 ds"

text \<open>
  A number: an optional minus sign, then a single zero or a digit from one to nine
  followed by digits. What follows the number is left to the caller.
\<close>

definition scan_number :: "string \<Rightarrow> (json \<times> string) option" where
  "scan_number s =
     (let negative = (case s of c # _ \<Rightarrow> c = CHR ''-'' | [] \<Rightarrow> False);
          s1 = (if negative then tl s else s);
          ds = (case s1 of
                  [] \<Rightarrow> []
                | c # cs \<Rightarrow> if c = CHR ''0'' then [c]
                           else if is_digit c then c # takeWhile is_digit cs else [])
      in if ds = [] then None
         else Some (JInt (if negative then - int (digits_value ds) else int (digits_value ds)),
                    drop (length ds) s1))"

definition hex_value :: "char \<Rightarrow> nat option" where
  "hex_value c =
     (let n = (of_char c :: nat)
      in if 48 \<le> n \<and> n \<le> 57 then Some (n - 48)
         else if 97 \<le> n \<and> n \<le> 102 then Some (n - 87)
         else if 65 \<le> n \<and> n \<le> 70 then Some (n - 55)
         else None)"

text \<open>
  The characters of a string after its opening quote, up to the closing quote. A
  control character ends the decoding with an error, as does an unknown escape.
\<close>

fun scan_string :: "string \<Rightarrow> string \<Rightarrow> (string \<times> string) option" where
  "scan_string acc [] = None"
| "scan_string acc [c] = (if c = CHR 0x22 then Some (rev acc, []) else None)"
| "scan_string acc (c # d # cs) =
     (if c = CHR 0x22 then Some (rev acc, d # cs)
      else if c = CHR 0x5C then
        (if d = CHR 0x22 \<or> d = CHR 0x5C \<or> d = CHR ''/'' then scan_string (d # acc) cs
         else if d = CHR ''n'' then scan_string (CHR 0x0A # acc) cs
         else if d = CHR ''r'' then scan_string (CHR 0x0D # acc) cs
         else if d = CHR ''t'' then scan_string (CHR 0x09 # acc) cs
         else if d = CHR ''b'' then scan_string (CHR 0x08 # acc) cs
         else if d = CHR ''f'' then scan_string (CHR 0x0C # acc) cs
         else if d = CHR ''u'' then
           (case cs of
              h1 # h2 # h3 # h4 # cs' \<Rightarrow>
                (case (hex_value h1, hex_value h2, hex_value h3, hex_value h4) of
                   (Some a, Some b, Some x, Some y) \<Rightarrow>
                     if a = 0 \<and> b = 0 \<and> x < 8
                     then scan_string (char_of (16 * x + y) # acc) cs'
                     else None
                 | _ \<Rightarrow> None)
            | _ \<Rightarrow> None)
         else None)
      else if (of_char c :: nat) < 32 then None
      else scan_string (c # acc) (d # cs))"

text \<open>
  The decoder proper, by the first character of the value. The recursion is bounded
  by a counter, which \<open>json_loads\<close> sets beyond what a text of the given length can use:
  every call made with a smaller counter comes after at least one character has been
  consumed.
\<close>

fun scan_once :: "nat \<Rightarrow> string \<Rightarrow> (json \<times> string) option"
  and scan_array :: "nat \<Rightarrow> json list \<Rightarrow> string \<Rightarrow> (json \<times> string) option"
  and scan_object :: "nat \<Rightarrow> (string \<times> json) list \<Rightarrow> string \<Rightarrow> (json \<times> string) option"
where
  "scan_once 0 s = None"
| "scan_once (Suc n) s =
     (case s of
        [] \<Rightarrow> None
      | c # cs \<Rightarrow>
          if c = CHR 0x22 then
            (case scan_string [] cs of
               None \<Rightarrow> None
             | Some (str, rest) \<Rightarrow> Some (JString str, rest))
          else if c = CHR ''{'' then
            (case skip_ws cs of
               [] \<Rightarrow> None
             | d # ds \<Rightarrow> if d = CHR ''}'' then Some (JObject [], ds)
                        else scan_object n [] (d # ds))
          else if c = CHR ''['' then
            (case skip_ws cs of
               [] \<Rightarrow> None
             | d # ds \<Rightarrow> if d = CHR '']'' then Some (JArray [], ds)
                        else scan_array n [] (d # ds))
          else if take 4 s = ''null'' then Some (JNull, drop 4 s)
          else if take 4 s = ''true'' then Some (JBool True, drop 4 s)
          else if take 5 s = ''false'' then Some (JBool False, drop 5 s)
          else scan_number s)"
| "scan_array 0 values s = None"
| "scan_array (Suc n) values s =
     (case scan_once n s of
        None \<Rightarrow> None
      | Some (v, rest) \<Rightarrow>
          (case skip_ws rest of
             [] \<Rightarrow> None
           | c # cs \<Rightarrow>
               if c = CHR '']'' then Some (JArray (values @ [v]), cs)
               else if c = CHR '','' then scan_array n (values @ [v]) (skip_ws cs)
               else None))"
| "scan_object 0 pairs s = None"
| "scan_object (Suc n) pairs s =
     (case s of
        [] \<Rightarrow> None
      | q # s1 \<Rightarrow>
          if q \<noteq> CHR 0x22 then None
          else
            (case scan_string [] s1 of
               None \<Rightarrow> None
             | Some (key, s2) \<Rightarrow>
                 (case skip_ws s2 of
                    [] \<Rightarrow> None
                  | c # s3 \<Rightarrow>
                      if c \<noteq> CHR '':'' then None
                      else
                        (case scan_once n (skip_ws s3) of
                           None \<Rightarrow> None
                         | Some (v, s4) \<Rightarrow>
                             (case skip_ws s4 of
                                [] \<Rightarrow> None
                              | d # s5 \<Rightarrow>
                                  if d = CHR ''}''
                                  then Some (JObject (AList.update key v pairs), s5)
                                  else if d = CHR '',''
                                  then scan_object n (AList.update key v pairs) (skip_ws s5)
                                  else None)))))"

definition json_loads :: "string \<Rightarrow> json option" where
  "json_loads s =
     (case scan_once (2 * length s + 2) (skip_ws s) of
        None \<Rightarrow> None
      | Some (v, rest) \<Rightarrow> if skip_ws rest = [] then Some v else None)"

section \<open>Properties\<close>

subsection \<open>Auxiliary notions\<close>

text \<open>
  The read flags of two versions of table \<^verbatim>\<open>clients\<close>, row by row: the rows keep their
  ids, and a row that was read is still read.
\<close>

definition keeps_read :: "Client list \<Rightarrow> Client list \<Rightarrow> bool" where
  "keeps_read rows rows' =
     list_all2 (\<lambda>r r'. client_id r' = client_id r \<and> (read_by_admin r \<longrightarrow> read_by_admin r'))
       rows rows'"

definition status_ok :: "database \<Rightarrow> bool" where
  "status_ok db = (\<forall>r\<in>set (clients db). status r \<in> set valid_statuses)"

text \<open>The text stored for a section: the content of the last row that carries its name.\<close>

definition stored :: "WebsiteContent list \<Rightarrow> string \<Rightarrow> string option" where
  "stored rows s = map_option content (find (\<lambda>r. section_name r = s) (rev rows))"

subsection \<open>Example data\<close>

text \<open>
  A clock reading, one submission, a store that holds it, and stand-ins for the
  password hashing and token functions of the libraries, used where a statement is
  evaluated on concrete input.
\<close>

definition noon :: datetime where
  "noon = \<lparr>year = 2024, month = 3, day = 9, hour = 12, minute = 0, second = 0,
            microsecond = 0\<rparr>"

definition jane :: Client where
  "jane = \<lparr> client_id = 1, name = ''Jane Doe'', email = ''jane@example.com'', phone = [],
     address = [], project_type = [], message = ''Hello'', status = ''new'',
     created_at = ''2024-03-09 11:00:00'', read_by_admin = False,
     admin_notes = Some [],
     replied_by_admin = False, reply_date = [], reply_content = [], reply_admin = [] \<rparr>"

definition jane_fields :: "string \<rightharpoonup> string" where
  "jane_fields = [''name'' \<mapsto> ''Jane Doe'', ''email'' \<mapsto> ''jane@example.com'',
                  ''message'' \<mapsto> ''Hello'']"

definition example_hash :: "string \<Rightarrow> string" where
  "example_hash p = ''plain$'' @ p"

definition example_check :: "string \<Rightarrow> string \<Rightarrow> bool" where
  "example_check h p = (h = example_hash p)"

definition fresh_store :: database where
  "fresh_store = init_database example_hash [] noon"

definition jane_store :: database where
  "jane_store = fresh_store\<lparr>clients := [jane], clients_seq := 1\<rparr>"

definition admin_identity :: admin_data where
  "admin_identity = \<lparr>data_id = 1, data_username = ''admin'',
                      data_created_at = ''2024-03-09 12:00:00''\<rparr>"


definition example_verify :: "string \<Rightarrow> string + admin_data" where
  "example_verify t =
     (if t = ''token-of-admin'' then Inr admin_identity else Inl ''Invalid token'')"






definition read_store :: database where
  "read_store = fresh_store\<lparr>clients := [jane\<lparr>read_by_admin := True\<rparr>], clients_seq := 1\<rparr>"

definition example_ops :: "operation list" where
  "example_ops = [Create jane_fields noon, SetStatus 1 ''completed'' ''admin'' noon]"

definition hero :: json where
  "hero = JObject [(''title'', JString ''Medical expertise for digital health.''),
                   (''ids'', JArray [JInt 1, JInt 2])]"

definition site_update :: "(string \<times> json) list" where
  "site_update = [(''hero'', hero),
                  (''contact_intro'', JString ''I work with health tech companies.''),
                  (''founded'', JString ''2024'')]"

subsection \<open>Auxiliary facts\<close>

lemma valid_statuses_text:
  "join '', '' valid_statuses = ''new, contacted, in_progress, completed, archived''"
  by (simp add: valid_statuses_def)


text \<open>The two UPDATE statements of \<^verbatim>\<open>update_client_status\<close> as one rewriting of the table.\<close>

lemma status_rows:
  "update_client_status db cid st admin_name now =
     (if st \<notin> set valid_statuses
      then ((False, ''Invalid status. Must be one of: '' @ join '', '' valid_statuses), db)
      else if 2 ^ 63 \<le> cid then ((False, overflow_error), db)
      else if cid \<in> client_id ` set (clients db)
      then ((True, ''Status updated successfully''),
            db\<lparr>clients :=
                 map (\<lambda>r. if client_id r = cid
                          then r\<lparr>status := st, read_by_admin := True,
                                 admin_notes :=
                                   (if admin_name = [] then admin_notes r
                                    else map_option (\<lambda>n. n @ status_note now st admin_name)
                                           (admin_notes r))\<rparr>
                          else r)
                     (clients db)\<rparr>)
      else ((False, ''Client not found''), db))"
  by (auto simp: update_client_status_def sql_update_def filter_empty_conv o_def
      intro!: arg_cong[where f="\<lambda>x. clients_update x db"])

lemma replied_rows:
  "mark_client_as_replied db cid reply admin_name now =
     (if cid \<in> client_id ` set (clients db)
      then ((True, ''Client marked as replied''),
            db\<lparr>clients :=
                 map (\<lambda>r. if client_id r = cid
                          then r\<lparr>replied_by_admin := True, reply_date := isoformat now,
                                 reply_content := reply, reply_admin := admin_name,
                                 read_by_admin := True\<rparr>
                          else r)
                     (clients db)\<rparr>)
      else ((False, ''Client not found''), db))"
  by (auto simp: mark_client_as_replied_def sql_update_def filter_empty_conv)









text \<open>The status invariant along a run.\<close>

lemma step_status_ok: "status_ok db \<Longrightarrow> status_ok (step db op)"
  by (cases op)
     (auto simp: status_ok_def create_client_def update_client_status_def
        mark_client_as_read_def mark_all_as_read_def mark_client_as_replied_def
        delete_client_def sql_update_def sql_delete_def valid_statuses_def Let_def
        split: option.splits if_splits)

lemma run_status_ok: "status_ok db \<Longrightarrow> status_ok (run db ops)"
  unfolding run_def by (induction ops arbitrary: db) (auto intro: step_status_ok)

lemma init_status_ok: "status_ok (init_database g dc utc)"
  by (simp add: status_ok_def init_database_def)

lemma status_counts_none:
  assumes "\<forall>r\<in>set rows. status r \<noteq> k"
  shows "map_of (map (\<lambda>s. (s, length (filter (\<lambda>r. status r = s) rows)))
                  (remdups (map status rows))) k = None"
  using assms by (auto simp: map_of_eq_None_iff image_iff)

lemma partition_length: "length (filter (\<lambda>r. \<not> P r) xs) + length (filter P xs) = length xs"
  by (induction xs) auto

lemma counts_partition:
  assumes "status_ok db"
  shows "\<exists>t u r. get_message_counts db ''total'' = Some t \<and>
                 get_message_counts db ''unread'' = Some u \<and>
                 get_message_counts db ''read'' = Some r \<and> u + r = t"
proof -
  have k: "\<forall>r\<in>set (clients db). status r \<noteq> k" if "k \<notin> set valid_statuses" for k
    using assms that by (auto simp: status_ok_def)
  have "\<forall>r\<in>set (clients db). status r \<noteq> ''total''"
    and "\<forall>r\<in>set (clients db). status r \<noteq> ''unread''"
    and "\<forall>r\<in>set (clients db). status r \<noteq> ''read''"
    by (rule k, simp add: valid_statuses_def)+
  then show ?thesis
    by (simp add: get_message_counts_def Let_def map_add_def status_counts_none
        partition_length)
qed

lemma keeps_read_refl: "keeps_read rows rows"
  by (simp add: keeps_read_def list_all2_same)

lemma keeps_read_map:
  assumes "\<And>r. client_id (f r) = client_id r"
    and "\<And>r. read_by_admin r \<Longrightarrow> read_by_admin (f r)"
  shows "keeps_read rows (map (\<lambda>r. if P r then f r else r) rows)"
  using assms by (simp add: keeps_read_def list_all2_map2 list_all2_same)


lemma status_note_noon:
  "status_note noon ''contacted'' ''admin'' =
     newline @ newline @ ''[2024-03-09 12:00] Status changed to '' @ quote @ ''contacted'' @
     quote @ '' by admin''"
  by code_simp

subsection \<open>Changing the status (C1, C3)\<close>

text \<open>
  C1, as the code has it. For a status among the five values and an id that SQLite can
  hold (below \<^verbatim>\<open>2**63\<close>): when a submission with the id is in the store,
  \<^verbatim>\<open>update_client_status\<close> succeeds, and every row with that id gets the new status and
  \<open>read_by_admin = True\<close>, whatever it was before; when the actor's name is not empty,
  the note \<open>status_note\<close> (two newlines, the time to the minute in brackets, the new
  status in quotes and the actor) is appended to the row's notes by SQL's \<^verbatim>\<open>||\<close>, so
  to notes that are a string, and when the name is empty the notes stay as they are.
  All other rows and fields are unchanged. When no submission has the id, the call
  fails with \<^verbatim>\<open>Client not found\<close> and changes nothing.
\<close>

theorem update_client_status_valid:
  assumes "st \<in> set valid_statuses" and "cid < 2 ^ 63"
  shows "(cid \<in> client_id ` set (clients db) \<longrightarrow>
            update_client_status db cid st admin_name now =
              ((True, ''Status updated successfully''),
               db\<lparr>clients :=
                    map (\<lambda>r. if client_id r = cid
                             then r\<lparr>status := st, read_by_admin := True,
                                    admin_notes :=
                                      (if admin_name = [] then admin_notes r
                                       else map_option
                                              (\<lambda>n. n @ status_note now st admin_name)
                                              (admin_notes r))\<rparr>
                             else r)
                        (clients db)\<rparr>)) \<and>
         (cid \<notin> client_id ` set (clients db) \<longrightarrow>
            update_client_status db cid st admin_name now =
              ((False, ''Client not found''), db))"
  using assms by (simp add: status_rows)

text \<open>
  The statement at Jane's submission, whose notes are the empty string: the operator
  \<^verbatim>\<open>admin\<close> marks it contacted and the note is written, and an id that is not in the
  store is reported.
\<close>

theorem update_client_status_valid_witness:
  "update_client_status jane_store 1 ''contacted'' ''admin'' noon =
     ((True, ''Status updated successfully''),
      jane_store\<lparr>clients :=
        [jane\<lparr>status := ''contacted'', read_by_admin := True,
              admin_notes := Some (status_note noon ''contacted'' ''admin'')\<rparr>]\<rparr>) \<and>
   status_note noon ''contacted'' ''admin'' =
     newline @ newline @ ''[2024-03-09 12:00] Status changed to '' @ quote @ ''contacted'' @
     quote @ '' by admin'' \<and>
   update_client_status jane_store 7 ''contacted'' ''admin'' noon =
     ((False, ''Client not found''), jane_store)"
proof -
  have h: "''contacted'' \<in> set valid_statuses"
    by (simp add: valid_statuses_def)
  have small: "(1::nat) < 2 ^ 63" "(7::nat) < 2 ^ 63"
    by simp_all
  have ids: "client_id ` set (clients jane_store) = {1}"
    by (simp add: jane_store_def jane_def)
  have found: "update_client_status jane_store 1 ''contacted'' ''admin'' noon =
     ((True, ''Status updated successfully''),
      jane_store\<lparr>clients :=
        [jane\<lparr>status := ''contacted'', read_by_admin := True,
              admin_notes := Some (status_note noon ''contacted'' ''admin'')\<rparr>]\<rparr>)"
    using update_client_status_valid [OF h small(1), of jane_store "''admin''" noon]
    by (simp add: ids) (simp add: jane_store_def jane_def)
  have absent: "update_client_status jane_store 7 ''contacted'' ''admin'' noon =
     ((False, ''Client not found''), jane_store)"
    using update_client_status_valid [OF h small(2), of jane_store "''admin''" noon]
    by (simp add: ids)
  from found status_note_noon absent show ?thesis
    by (intro conjI)
qed

text \<open>
  C1 as stated fails in three ways. With the empty actor name, the default of the
  parameter, the status change on Jane's submission succeeds and her notes are what
  they were: no note was appended. After the read route has stored a JSON \<^verbatim>\<open>null\<close> note
  for her submission, its notes are NULL, and a status change by the operator
  \<^verbatim>\<open>admin\<close> succeeds and leaves them NULL. And for the id \<^verbatim>\<open>2**63\<close>, which no
  submission has, the failure is not \<^verbatim>\<open>Client not found\<close> but the text of the
  \<^verbatim>\<open>OverflowError\<close>.
\<close>

theorem update_client_status_no_note_counterexample:
  "update_client_status jane_store 1 ''contacted'' [] noon =
     ((True, ''Status updated successfully''),
      jane_store\<lparr>clients := [jane\<lparr>status := ''contacted'', read_by_admin := True\<rparr>]\<rparr>) \<and>
   map admin_notes (clients (snd (update_client_status jane_store 1 ''contacted'' [] noon))) =
     map admin_notes (clients jane_store) \<and>
   map admin_notes (clients (snd (mark_client_as_read jane_store 1 None ''admin''))) = [None] \<and>
   fst (update_client_status (snd (mark_client_as_read jane_store 1 None ''admin'')) 1
          ''contacted'' ''admin'' noon) = (True, ''Status updated successfully'') \<and>
   map admin_notes
     (clients (snd (update_client_status (snd (mark_client_as_read jane_store 1 None ''admin''))
                      1 ''contacted'' ''admin'' noon))) = [None] \<and>
   2 ^ 63 \<notin> client_id ` set (clients jane_store) \<and>
   update_client_status jane_store (2 ^ 63) ''contacted'' ''admin'' noon =
     ((False, ''Python int too large to convert to SQLite INTEGER''), jane_store)"
proof -
  have small: "\<not> 2 ^ 63 \<le> (1::nat)"
    by simp
  have no_actor: "update_client_status jane_store 1 ''contacted'' [] noon =
     ((True, ''Status updated successfully''),
      jane_store\<lparr>clients := [jane\<lparr>status := ''contacted'', read_by_admin := True\<rparr>]\<rparr>)"
    by (simp add: update_client_status_def sql_update_def valid_statuses_def small
        jane_store_def jane_def)
  have null_note: "snd (mark_client_as_read jane_store 1 None ''admin'') =
     jane_store\<lparr>clients := [jane\<lparr>read_by_admin := True, admin_notes := None\<rparr>]\<rparr>"
    by (simp add: mark_client_as_read_def sql_update_def jane_store_def jane_def)
  have null_kept: "update_client_status
       (jane_store\<lparr>clients := [jane\<lparr>read_by_admin := True, admin_notes := None\<rparr>]\<rparr>) 1
       ''contacted'' ''admin'' noon =
     ((True, ''Status updated successfully''),
      jane_store\<lparr>clients := [jane\<lparr>read_by_admin := True, admin_notes := None,
                                  status := ''contacted''\<rparr>]\<rparr>)"
    by (simp add: update_client_status_def sql_update_def valid_statuses_def small
        jane_store_def jane_def)
  have big: "update_client_status jane_store (2 ^ 63) ''contacted'' ''admin'' noon =
     ((False, ''Python int too large to convert to SQLite INTEGER''), jane_store)"
    by (simp add: update_client_status_def valid_statuses_def overflow_error_def)
  have absent: "2 ^ 63 \<notin> client_id ` set (clients jane_store)"
    by (simp add: jane_store_def jane_def)
  have rows: "clients jane_store = [jane]"
    by (simp add: jane_store_def)
  show ?thesis
    unfolding null_note null_kept no_actor big using absent by (simp add: rows)
qed

text \<open>
  C3. For a status outside the five values, \<^verbatim>\<open>update_client_status\<close> returns the
  failure \<^verbatim>\<open>Invalid status\<close> and the database after the call is the database before it:
  no row and no field has changed.
\<close>

theorem update_client_status_invalid:
  assumes "st \<notin> set valid_statuses"
  shows "update_client_status db cid st admin_name now =
           ((False,
             ''Invalid status. Must be one of: new, contacted, in_progress, completed, archived''),
            db)"
  using assms by (simp add: update_client_status_def valid_statuses_text)

theorem update_client_status_invalid_witness:
  "''bogus'' \<notin> set valid_statuses \<and>
   update_client_status jane_store 1 ''bogus'' ''admin'' noon =
     ((False,
       ''Invalid status. Must be one of: new, contacted, in_progress, completed, archived''),
      jane_store)"
proof -
  have h: "''bogus'' \<notin> set valid_statuses"
    by (simp add: valid_statuses_def)
  show ?thesis
    using h update_client_status_invalid [OF h, of jane_store 1 "''admin''" noon] by simp
qed

subsection \<open>Recording a reply (C2)\<close>

lemma noon_timestamp: "current_timestamp noon = ''2024-03-09 12:00:00''"
  by code_simp


lemma example_authorize:
  "authorize (Some ''token-of-admin'') example_verify = Inr admin_identity"
  by (simp add: authorize_def example_verify_def)






subsection \<open>The status invariant and the counts (C4, C5)\<close>

lemma example_run:
  "clients (run fresh_store example_ops) =
     [jane\<lparr>created_at := ''2024-03-09 12:00:00'', status := ''completed'',
           read_by_admin := True,
           admin_notes := Some (status_note noon ''completed'' ''admin'')\<rparr>]"
  by (simp add: run_def example_ops_def create_client_def jane_fields_def get_default_def
      status_rows valid_statuses_def fresh_store_def init_database_def noon_timestamp
      Let_def next_client_id_def)
     (simp add: jane_def)

text \<open>
  C4. After any sequence of the six operations (create, set status, mark read, mark
  all read, reply, delete), whatever their arguments and whether they succeed or fail,
  started on a freshly initialised store, the status of every submission row is one of
  \<^verbatim>\<open>new\<close>, \<^verbatim>\<open>contacted\<close>, \<^verbatim>\<open>in_progress\<close>, \<^verbatim>\<open>completed\<close>, \<^verbatim>\<open>archived\<close>.
\<close>

theorem status_always_valid:
  "\<forall>r\<in>set (clients (run (init_database generate_password_hash default_content utc) ops)).
     status r \<in> set valid_statuses"
  using run_status_ok [OF init_status_ok] by (simp add: status_ok_def)

text \<open>The run that creates Jane's submission and completes it leaves one row, with a valid status.\<close>

theorem status_always_valid_witness:
  "map status (clients (run fresh_store example_ops)) = [''completed''] \<and>
   ''completed'' \<in> set valid_statuses"
proof -
  have rows: "map status (clients (run fresh_store example_ops)) = [''completed'']"
    by (simp add: example_run)
  have "\<forall>r\<in>set (clients (run fresh_store example_ops)). status r \<in> set valid_statuses"
    unfolding fresh_store_def by (rule status_always_valid)
  then have "\<forall>s\<in>set (map status (clients (run fresh_store example_ops))).
               s \<in> set valid_statuses"
    by simp
  then have "''completed'' \<in> set valid_statuses"
    unfolding rows by simp
  with rows show ?thesis by simp
qed

text \<open>
  C5. In every state of the database that the operations produce from a freshly
  initialised store, the dictionary returned by \<^verbatim>\<open>get_message_counts\<close> has the entries
  \<^verbatim>\<open>total\<close>, \<^verbatim>\<open>unread\<close> and \<^verbatim>\<open>read\<close>, and unread plus read equals total. (The
  per-status entries are written over the dictionary last; they cannot displace the
  three because no status carries one of their names.)
\<close>

theorem counts_unread_read_total:
  "\<exists>t u r.
     get_message_counts
       (run (init_database generate_password_hash default_content utc) ops) ''total'' = Some t \<and>
     get_message_counts
       (run (init_database generate_password_hash default_content utc) ops) ''unread'' = Some u \<and>
     get_message_counts
       (run (init_database generate_password_hash default_content utc) ops) ''read'' = Some r \<and>
     u + r = t"
  by (rule counts_partition [OF run_status_ok [OF init_status_ok]])

subsection \<open>Creating a submission (C6)\<close>



subsection \<open>Authentication failures (C7)\<close>

text \<open>
  C7. Whenever \<^verbatim>\<open>authenticate_admin\<close> fails, its result is the triple of failure, the
  message \<^verbatim>\<open>Invalid credentials\<close> and no account: two failing calls, whatever the user
  names and passwords, return equal results, so the result of a failed call does not
  tell an unknown user name from a wrong password.
\<close>

theorem authenticate_admin_failures_equal:
  assumes "\<not> fst (authenticate_admin check_password_hash db uname1 password1)"
      and "\<not> fst (authenticate_admin check_password_hash db uname2 password2)"
  shows "authenticate_admin check_password_hash db uname1 password1 =
           authenticate_admin check_password_hash db uname2 password2 \<and>
         authenticate_admin check_password_hash db uname1 password1 =
           (False, ''Invalid credentials'', None)"
  using assms by (auto simp: authenticate_admin_def split: option.splits if_splits)

text \<open>
  On a fresh store: the unknown user \<^verbatim>\<open>nobody\<close> and the seeded user \<^verbatim>\<open>admin\<close> with a
  wrong password get the same answer, and \<^verbatim>\<open>admin\<close> with the seeded password is let in.
\<close>

theorem authenticate_admin_failures_equal_witness:
  "authenticate_admin example_check fresh_store ''nobody'' ''admin9048'' =
     authenticate_admin example_check fresh_store ''admin'' ''wrong'' \<and>
   authenticate_admin example_check fresh_store ''nobody'' ''admin9048'' =
     (False, ''Invalid credentials'', None) \<and>
   find (\<lambda>r. username r = ''nobody'') (admin_users fresh_store) = None \<and>
   find (\<lambda>r. username r = ''admin'') (admin_users fresh_store) \<noteq> None \<and>
   fst (authenticate_admin example_check fresh_store ''admin'' ''admin9048'')"
proof -
  have unknown: "\<not> fst (authenticate_admin example_check fresh_store ''nobody'' ''admin9048'')"
    by (simp add: authenticate_admin_def fresh_store_def init_database_def)
  have wrong: "\<not> fst (authenticate_admin example_check fresh_store ''admin'' ''wrong'')"
    by (simp add: authenticate_admin_def fresh_store_def init_database_def example_check_def
        example_hash_def)
  have right: "fst (authenticate_admin example_check fresh_store ''admin'' ''admin9048'')"
    by (simp add: authenticate_admin_def fresh_store_def init_database_def example_check_def
        example_hash_def)
  have users: "find (\<lambda>r. username r = ''nobody'') (admin_users fresh_store) = None \<and>
     find (\<lambda>r. username r = ''admin'') (admin_users fresh_store) \<noteq> None"
    by (simp add: fresh_store_def init_database_def)
  from authenticate_admin_failures_equal [OF unknown wrong] users right
  show ?thesis by blast
qed

subsection \<open>Sending a reply (C8)\<close>



subsection \<open>The read flag (C10)\<close>

text \<open>
  C10. Each of the four lifecycle operations (mark read, mark all read, set status,
  reply), whatever its arguments and its outcome, leaves the table with the same rows
  in the same order, row by row with the same id, and a row whose read flag was true
  before the call has it true after the call. The two remaining operations on
  submissions do not touch the rows they keep: creating a submission leaves the old
  rows as they were and adds one at the end, and after a deletion every row of the
  table is a row of the table before. No operation of \<^verbatim>\<open>DatabaseManager\<close> writes 0 to
  the flag.
\<close>

theorem read_flag_never_cleared:
  "keeps_read (clients db) (clients (snd (mark_client_as_read db cid notes admin_name))) \<and>
   keeps_read (clients db) (clients (snd (mark_all_as_read db admin_name now1 now2))) \<and>
   keeps_read (clients db) (clients (snd (update_client_status db cid st admin_name now))) \<and>
   keeps_read (clients db)
     (clients (snd (mark_client_as_replied db cid reply admin_name now))) \<and>
   take (length (clients db)) (clients (snd (create_client db client_data utc))) =
     clients db \<and>
   set (clients (snd (delete_client db cid))) \<subseteq> set (clients db)"
proof (intro conjI)
  show "take (length (clients db)) (clients (snd (create_client db client_data utc))) =
          clients db"
    by (simp add: create_client_def Let_def split: option.splits)
  show "set (clients (snd (delete_client db cid))) \<subseteq> set (clients db)"
    by (auto simp: delete_client_def sql_delete_def)
  show "keeps_read (clients db) (clients (snd (mark_client_as_read db cid notes admin_name)))"
    by (simp add: mark_client_as_read_def sql_update_def Let_def keeps_read_refl
        keeps_read_map)
  show "keeps_read (clients db) (clients (snd (mark_all_as_read db admin_name now1 now2)))"
    by (simp add: mark_all_as_read_def sql_update_def Let_def keeps_read_map)
  show "keeps_read (clients db)
          (clients (snd (update_client_status db cid st admin_name now)))"
    by (simp add: status_rows keeps_read_refl keeps_read_map)
  show "keeps_read (clients db)
          (clients (snd (mark_client_as_replied db cid reply admin_name now)))"
    by (simp add: replied_rows keeps_read_refl keeps_read_map)
qed

text \<open>
  A store whose only submission is already read: after each of the four operations
  its read flag is still set.
\<close>

theorem read_flag_never_cleared_witness:
  "map read_by_admin (clients read_store) = [True] \<and>
   map read_by_admin (clients (snd (mark_client_as_read read_store 1 (Some ''seen'') ''admin''))) =
     [True] \<and>
   map read_by_admin (clients (snd (mark_all_as_read read_store ''admin'' noon noon))) =
     [True] \<and>
   map read_by_admin
     (clients (snd (update_client_status read_store 1 ''archived'' ''admin'' noon))) = [True] \<and>
   map read_by_admin
     (clients (snd (mark_client_as_replied read_store 1 ''Thanks!'' ''admin'' noon))) = [True]"
proof -
  have rows: "clients read_store = [jane\<lparr>read_by_admin := True\<rparr>]"
    by (simp add: read_store_def)
  have single: "map read_by_admin rows' = [True]"
    if "keeps_read [jane\<lparr>read_by_admin := True\<rparr>] rows'" for rows'
    using that by (auto simp: keeps_read_def list_all2_Cons1)
  note kept = read_flag_never_cleared
    [of read_store 1 "Some ''seen''" "''admin''" noon noon "''archived''" noon "''Thanks!''"
       jane_fields noon, unfolded rows]
  have "map read_by_admin (clients read_store) = [True]"
    by (simp add: rows)
  moreover have "map read_by_admin
      (clients (snd (mark_client_as_read read_store 1 (Some ''seen'') ''admin''))) = [True]"
    using kept by (intro single) simp
  moreover have "map read_by_admin
      (clients (snd (mark_all_as_read read_store ''admin'' noon noon))) = [True]"
    using kept by (intro single) simp
  moreover have "map read_by_admin
      (clients (snd (update_client_status read_store 1 ''archived'' ''admin'' noon))) = [True]"
    using kept by (intro single) simp
  moreover have "map read_by_admin
      (clients (snd (mark_client_as_replied read_store 1 ''Thanks!'' ''admin'' noon))) = [True]"
    using kept by (intro single) simp
  ultimately show ?thesis by (intro conjI)
qed

subsection \<open>Saving and reading site content (C9)\<close>

lemma lookup_rows:
  "foldl (\<lambda>m r. m(section_name r \<mapsto> r)) m rows s =
     (case find (\<lambda>r. section_name r = s) (rev rows) of Some r \<Rightarrow> Some r | None \<Rightarrow> m s)"
  by (induction rows rule: rev_induct) auto

lemma get_website_content_stored:
  "map_option content (get_website_content db s) = stored (website_content db) s"
  by (simp add: get_website_content_def lookup_rows stored_def split: option.splits)

lemma find_filter_other:
  "s \<noteq> k \<Longrightarrow>
   find (\<lambda>r. section_name r = s) (filter (\<lambda>r. section_name r \<noteq> k) rows) =
   find (\<lambda>r. section_name r = s) rows"
  by (induction rows) auto

lemma stored_insert:
  "stored (insert_or_replace utc rows (k, c)) s = (if s = k then Some c else stored rows s)"
  by (auto simp: stored_def insert_or_replace_def rev_filter find_filter_other)

lemma stored_foldl:
  "stored (foldl (insert_or_replace utc) rows cd) s =
     (case map_of (rev cd) s of Some c \<Rightarrow> Some c | None \<Rightarrow> stored rows s)"
proof (induction cd rule: rev_induct)
  case Nil
  then show ?case by simp
next
  case (snoc x xs)
  then show ?case by (cases x) (simp add: stored_insert)
qed

lemma map_of_to_save:
  "map_of (foldl (\<lambda>acc item. AList.update (fst item) (f (snd item)) acc) acc0 items) =
     map_of acc0 ++ map_of (rev (map (\<lambda>item. (fst item, f (snd item))) items))"
proof (induction items arbitrary: acc0)
  case Nil
  then show ?case by simp
next
  case (Cons x xs)
  show ?case
    by (simp add: Cons AList.update_conv' map_add_def fun_eq_iff split: option.splits)
qed

lemma distinct_to_save:
  "distinct (map fst acc0) \<Longrightarrow>
   distinct (map fst (foldl (\<lambda>acc item. AList.update (fst item) (f (snd item)) acc)
                        acc0 items))"
  by (induction items arbitrary: acc0) (simp_all add: AList.distinct_update)

lemma map_of_rev_distinct: "distinct (map fst xs) \<Longrightarrow> map_of (rev xs) = map_of xs"
  by (rule ext)
     (metis distinct_rev map_of_eq_Some_iff map_of_eq_None_iff not_Some_eq rev_map set_rev)

lemma saved_text:
  assumes "distinct (map fst items)" and "(k, v) \<in> set items"
  shows "stored (foldl (insert_or_replace utc) rows
                  (foldl (\<lambda>acc item. AList.update (fst item) (f (snd item)) acc) [] items)) k =
         Some (f v)"
proof -
  let ?cd = "foldl (\<lambda>acc item. AList.update (fst item) (f (snd item)) acc) [] items"
  have d: "distinct (map fst ?cd)"
    by (rule distinct_to_save) simp
  have d2: "distinct (map fst (map (\<lambda>item. (fst item, f (snd item))) items))"
    using assms(1) by (simp add: o_def)
  have "map_of (rev ?cd) k = map_of ?cd k"
    using map_of_rev_distinct [OF d] by simp
  also have "\<dots> = map_of (rev (map (\<lambda>item. (fst item, f (snd item))) items)) k"
    by (simp add: map_of_to_save)
  also have "\<dots> = map_of (map (\<lambda>item. (fst item, f (snd item))) items) k"
    using map_of_rev_distinct [OF d2] by simp
  also have "\<dots> = Some (f v)"
    using assms d2
    by (intro map_of_is_SomeI) (auto simp: image_iff intro!: bexI [of _ "(k, v)"])
  finally show ?thesis
    by (simp add: stored_foldl)
qed

lemma get_content_stored:
  "get_content loads db s =
     map_option (\<lambda>text. case loads text of Some v \<Rightarrow> v | None \<Rightarrow> JString text)
       (stored (website_content db) s)"
  unfolding get_website_content_stored [symmetric]
  by (simp add: get_content_def split: option.splits)

text \<open>What a section reads as after a save that carried it.\<close>

lemma get_after_save:
  assumes auth: "authorize token verify_token = Inr admin"
      and keys: "distinct (map fst items)"
      and item: "(section, v) \<in> set items"
  shows "save_content db token verify_token dumps (JObject items) utc =
           ((Message ''Content saved successfully'', 200),
            snd (save_content db token verify_token dumps (JObject items) utc)) \<and>
         get_content loads (snd (save_content db token verify_token dumps (JObject items) utc))
           section =
           Some (case loads (if is_container v then dumps v else py_str v) of
                   Some w \<Rightarrow> w
                 | None \<Rightarrow> JString (if is_container v then dumps v else py_str v))"
proof -
  let ?f = "\<lambda>x. if is_container x then dumps x else py_str x"
  have "stored (website_content
                 (snd (save_content db token verify_token dumps (JObject items) utc)))
          section = Some (?f v)"
    using auth saved_text [OF keys item, of utc "website_content db" ?f]
    by (simp add: save_content_def save_website_content_def Let_def)
  moreover have "save_content db token verify_token dumps (JObject items) utc =
           ((Message ''Content saved successfully'', 200),
            snd (save_content db token verify_token dumps (JObject items) utc))"
    using auth by (simp add: save_content_def save_website_content_def Let_def)
  ultimately show ?thesis
    by (simp add: get_content_stored)
qed

lemma loads_founded: "json_loads ''2024'' = Some (JInt 2024)"
  by code_simp

lemma loads_intro: "json_loads ''I work with health tech companies.'' = None"
  by code_simp

lemma loads_dumps_hero: "json_loads (json_dumps hero) = Some hero"
  by code_simp

text \<open>
  C9, as the code has it. An authenticated save of a JSON object succeeds, and a
  following read returns for each section of the object: the exact string, when the
  value was a string that the JSON decoder rejects; the decoded value, when the value
  was a string that is itself valid JSON text; and the value itself, when it was a
  dictionary or a list (saved as serialised JSON) and decoding its serialisation gives
  it back, as the library's decoder does.
\<close>

theorem content_round_trip:
  assumes auth: "authorize token verify_token = Inr admin"
      and keys: "distinct (map fst items)"
      and item: "(section, v) \<in> set items"
  shows "fst (save_content db token verify_token dumps (JObject items) utc) =
           (Message ''Content saved successfully'', 200) \<and>
         (\<forall>s. v = JString s \<and> loads s = None \<longrightarrow>
            get_content loads
              (snd (save_content db token verify_token dumps (JObject items) utc)) section =
              Some (JString s)) \<and>
         (\<forall>s w. v = JString s \<and> loads s = Some w \<longrightarrow>
            get_content loads
              (snd (save_content db token verify_token dumps (JObject items) utc)) section =
              Some w) \<and>
         (is_container v \<and> loads (dumps v) = Some v \<longrightarrow>
            get_content loads
              (snd (save_content db token verify_token dumps (JObject items) utc)) section =
              Some v)"
proof -
  note saved = get_after_save [OF auth keys item, of db dumps utc loads]
  from saved have "fst (save_content db token verify_token dumps (JObject items) utc) =
           (Message ''Content saved successfully'', 200)"
    by (metis fst_conv)
  with saved show ?thesis
    by (auto simp: is_container_def py_str_def)
qed

text \<open>
  The operator saves three sections on a fresh store: a dictionary, a sentence, and
  the string \<^verbatim>\<open>2024\<close>. The dictionary and the sentence read back as they were saved; the
  string \<^verbatim>\<open>2024\<close> reads back as the number.
\<close>

theorem content_round_trip_witness:
  "fst (save_content fresh_store (Some ''token-of-admin'') example_verify json_dumps
          (JObject site_update) noon) = (Message ''Content saved successfully'', 200) \<and>
   get_content json_loads
     (snd (save_content fresh_store (Some ''token-of-admin'') example_verify json_dumps
             (JObject site_update) noon)) ''contact_intro'' =
     Some (JString ''I work with health tech companies.'') \<and>
   get_content json_loads
     (snd (save_content fresh_store (Some ''token-of-admin'') example_verify json_dumps
             (JObject site_update) noon)) ''founded'' = Some (JInt 2024) \<and>
   get_content json_loads
     (snd (save_content fresh_store (Some ''token-of-admin'') example_verify json_dumps
             (JObject site_update) noon)) ''hero'' = Some hero"
proof -
  have keys: "distinct (map fst site_update)"
    by (simp add: site_update_def)
  have c: "is_container hero"
    by (simp add: is_container_def hero_def)
  have i1: "(''contact_intro'', JString ''I work with health tech companies.'') \<in> set site_update"
    and i2: "(''founded'', JString ''2024'') \<in> set site_update"
    and i3: "(''hero'', hero) \<in> set site_update"
    by (simp_all add: site_update_def)
  note rt = content_round_trip [OF example_authorize keys, of _ _ fresh_store json_dumps noon
    json_loads]
  from rt [OF i1] rt [OF i2] rt [OF i3] loads_intro loads_founded loads_dumps_hero c
  show ?thesis by blast
qed

text \<open>
  C9 as stated fails: the plain string \<^verbatim>\<open>2024\<close>, saved for a section, does not read back
  as that string but as the number 2024, because the read route decodes every stored
  text that is valid JSON.
\<close>

theorem content_round_trip_counterexample:
  "get_content json_loads
     (snd (save_content fresh_store (Some ''token-of-admin'') example_verify json_dumps
             (JObject [(''founded'', JString ''2024'')]) noon)) ''founded'' = Some (JInt 2024) \<and>
   JInt 2024 \<noteq> JString ''2024''"
proof -
  have "get_content json_loads
     (snd (save_content fresh_store (Some ''token-of-admin'') example_verify json_dumps
             (JObject [(''founded'', JString ''2024'')]) noon)) ''founded'' = Some (JInt 2024)"
    using get_after_save [OF example_authorize, of "[(''founded'', JString ''2024'')]"
      "''founded''" "JString ''2024''" fresh_store json_dumps noon json_loads]
    by (simp add: is_container_def py_str_def loads_founded)
  then show ?thesis by simp
qed

end
